theory Spec2Isabelle
  imports Main
begin

section \<open>Values the handlers read\<close>

text \<open>
  The result of \<open>JSON.parse\<close>, and every value of type \<open>any\<close> the code handles.
  A number is modelled where it is an integer in the safe range; an object keeps its
  members in the order of the text (a later member of the same name wins).
  \<open>undefined\<close> is \<open>None\<close> of \<open>json option\<close>.
\<close>

datatype json =
    JNull
  | JBool bool
  | JNum int
  | JStr string
  | JArr "json list"
  | JObj "(string \<times> json) list"

text \<open>
  \<open>lib/error.ts\<close>: the object \<open>errorMessage\<close> builds. \<open>null\<close> and \<open>undefined\<close> in
  an optional member are both \<open>None\<close>.
\<close>

record ErrorObject =
  errcode :: nat
  verbose :: "string option"
  method_name :: string
  arguments :: "string list option"
  errmessage :: "string option"
  options :: "(string \<times> string) list option"

text \<open>
  What a handler can throw: the exceptions of the runtime (\<open>JSON.parse\<close> on a text that
  is not JSON, a member read on \<open>null\<close> or \<open>undefined\<close>, a name used that is not
  declared) and the error objects of \<open>lib/error.ts\<close>.
\<close>

datatype error =
    SyntaxError
  | TypeError
  | ReferenceError
  | Thrown ErrorObject

definition messageDict :: "nat \<Rightarrow> string option" where
  "messageDict = map_of
     [(0, ''Unable to load file or stream''),
      (1, ''Invalid argument''),
      (2, ''Binary not found''),
      (3, ''ipcCommand invalid''),
      (4, ''Unable to bind IPC socket''),
      (5, ''Timeout''),
      (6, ''MPV is already running''),
      (7, ''Could not send IPC message''),
      (8, ''MPV is not running'')]"

definition errorMessage ::
  "nat \<Rightarrow> string \<Rightarrow> string list option \<Rightarrow> string option \<Rightarrow> (string \<times> string) list option
    \<Rightarrow> ErrorObject" where
  "errorMessage errorCode method args errorMsg opts =
     \<lparr>errcode = errorCode,
      verbose = messageDict errorCode,
      method_name = method,
      arguments = args,
      errmessage = errorMsg,
      options = opts\<rparr>"

text \<open>
  The member \<open>name\<close> of a parsed value that is not \<open>null\<close>. The handlers read only
  \<open>request_id\<close>, \<open>error\<close>, \<open>data\<close> and \<open>event\<close>: an object has them when its text
  does, and no boolean, number, string or array has a member of these names.
\<close>

fun field :: "string \<Rightarrow> json \<Rightarrow> json option" where
  "field name (JObj members) = map_of (rev members) name"
| "field name _ = None"

text \<open>The truth value of a value in a condition (\<open>if (x)\<close>, \<open>!x\<close>, \<open>x && y\<close>).\<close>

fun truthy :: "json option \<Rightarrow> bool" where
  "truthy None = False"
| "truthy (Some JNull) = False"
| "truthy (Some (JBool b)) = b"
| "truthy (Some (JNum n)) = (n \<noteq> 0)"
| "truthy (Some (JStr s)) = (s \<noteq> [])"
| "truthy (Some (JArr _)) = True"
| "truthy (Some (JObj _)) = True"

text \<open>
  The property key a value stands for in \<open>table[value]\<close>: a string is its own key, a
  number its decimal text, an array the texts of its elements joined by commas
  (\<open>null\<close> as the empty text).
\<close>

fun digits :: "nat \<Rightarrow> string" where
  "digits n = (if n < 10 then [''0123456789'' ! n] else digits (n div 10) @ [''0123456789'' ! (n mod 10)])"

definition int_text :: "int \<Rightarrow> string" where
  "int_text i = (if i < 0 then CHR ''-'' # digits (nat (- i)) else digits (nat i))"

fun join_comma :: "string list \<Rightarrow> string" where
  "join_comma [] = []"
| "join_comma [s] = s"
| "join_comma (s # t # ts) = s @ CHR '','' # join_comma (t # ts)"

fun to_key :: "json \<Rightarrow> string" where
  "to_key JNull = ''null''"
| "to_key (JBool b) = (if b then ''true'' else ''false'')"
| "to_key (JNum n) = int_text n"
| "to_key (JStr s) = s"
| "to_key (JArr xs) = join_comma (map (\<lambda>x. if x = JNull then [] else to_key x) xs)"
| "to_key (JObj _) = ''[object Object]''"

section \<open>The ipc interface (\<open>lib/ipcInterface/ipcInterface.ts\<close>)\<close>

text \<open>
  The class \<open>ipcRequest\<close> is imported from a file that is not among the sources. The
  interface constructs it with one argument, \<open>Object.values(command).splice(1)\<close>, and calls
  its methods \<open>resolve\<close> and \<open>reject\<close>. An \<open>ipcRequest\<close> is the argument it was built
  with; a call of one of its methods is recorded with the object it was called on.
\<close>

record ipcRequest =
  request_args :: "json list"

datatype completion =
    Resolve "json option"
  | Reject "json option"

text \<open>
  The state of one \<open>ipcInterface\<close>: whether its socket is destroyed, the table
  \<open>ipcRequests\<close>, the messages written to the socket (the object \<open>messageJson\<close> of
  each, as its command list and its request id, before \<open>JSON.stringify\<close>), the calls made
  on \<open>ipcRequest\<close> objects, and the values emitted as \<open>'message'\<close> events, each in order.
  The table is a plain object used as a dictionary; its keys are the identifiers \<open>cuid()\<close>
  returns, none of which names a member of \<open>Object.prototype\<close>, so a key that was not
  stored reads as \<open>undefined\<close> or as a value without \<open>resolve\<close> and \<open>reject\<close>.
\<close>

record ipcInterface =
  socket_destroyed :: bool
  ipcRequests :: "string \<rightharpoonup> ipcRequest"
  written :: "(json list \<times> string) list"
  completions :: "(ipcRequest \<times> completion) list"
  emitted :: "json list"

text \<open>Event \<open>close\<close>: the handler destroys the socket (and logs when \<open>debug\<close> is set).\<close>

definition closeHandler :: "ipcInterface \<Rightarrow> ipcInterface" where
  "closeHandler s = s\<lparr>socket_destroyed := True\<rparr>"

text \<open>
  \<open>getCaller\<close> of \<open>lib/util.ts\<close>. \<open>stackMatch\<close> is what matching the stack of a new
  \<open>Error\<close> against the pattern gives: the matched pieces, each of the form
  \<open>at name.method\<close> with a space after it, or \<open>null\<close> (\<open>None\<close>) when no frame matches.
  The function takes the last piece, splits it at the dots, trims the second part and
  appends \<open>()\<close>; reading \<open>length\<close> of \<open>null\<close>, or \<open>split\<close> or \<open>trim\<close> of
  \<open>undefined\<close>, throws.
\<close>

fun split_at :: "char \<Rightarrow> string \<Rightarrow> string list" where
  "split_at sep [] = [[]]"
| "split_at sep (c # cs) =
     (if c = sep then [] # split_at sep cs
      else (case split_at sep cs of
              [] \<Rightarrow> [[c]]
            | w # ws \<Rightarrow> (c # w) # ws))"

definition is_space :: "char \<Rightarrow> bool" where
  "is_space c = List.member [CHR 0x20, CHR 0x09, CHR 0x0A, CHR 0x0B, CHR 0x0C, CHR 0x0D] c"

definition trim :: "string \<Rightarrow> string" where
  "trim s = rev (dropWhile is_space (rev (dropWhile is_space s)))"

definition getCaller :: "string list option \<Rightarrow> error + string" where
  "getCaller stackMatch =
     (case stackMatch of
        None \<Rightarrow> Inl TypeError
      | Some pieces \<Rightarrow>
          (if pieces = [] then Inl TypeError
           else (case drop 1 (split_at CHR ''.'' (last pieces)) of
                   [] \<Rightarrow> Inl TypeError
                 | part # _ \<Rightarrow> Inr (trim part @ ''()''))))"

text \<open>
  \<open>send\<close>. \<open>stackMatch\<close> is the match \<open>getCaller\<close> would find on the stack of this
  call, \<open>request_id\<close> what \<open>cuid()\<close> returns, and \<open>write_ok\<close> says that
  \<open>JSON.stringify\<close> and \<open>socket.write\<close> return without throwing. The result is the state
  the call leaves and what it throws, if anything. \<open>getCaller()\<close> is evaluated only on a
  destroyed socket, as an argument of \<open>errorMessage\<close>: when it throws, that is what \<open>send\<close>
  throws. When the write throws, the \<open>catch\<close> block evaluates the name \<open>message\<close>, which
  is declared nowhere, before it calls \<open>reject\<close>: a \<open>ReferenceError\<close>.
\<close>

definition send ::
  "string list option \<Rightarrow> string \<Rightarrow> bool \<Rightarrow> ipcInterface \<Rightarrow> json list
    \<Rightarrow> ipcInterface \<times> error option" where
  "send stackMatch request_id write_ok s command =
     (if socket_destroyed s then
        (case getCaller stackMatch of
           Inl e \<Rightarrow> (s, Some e)
         | Inr caller \<Rightarrow> (s, Some (Thrown (errorMessage 8 caller None None None))))
      else
        let s1 = s\<lparr>ipcRequests := (ipcRequests s)(request_id \<mapsto> \<lparr>request_args = drop 1 command\<rparr>)\<rparr>
        in if write_ok
           then (s1\<lparr>written := written s1 @ [(command, request_id)],
                    ipcRequests := (ipcRequests s1)(request_id := None)\<rparr>, None)
           else (s1, Some ReferenceError))"

text \<open>
  \<open>command\<close>. \<open>args\<close> is of type \<open>any\<close>: a value that is not truthy is replaced by
  the empty list, then \<open>[command, ...args]\<close> spreads it. An array spreads to its elements
  and a string to its characters; a boolean, a number or an object is not iterable.
\<close>

fun spread :: "json option \<Rightarrow> error + json list" where
  "spread (Some (JArr xs)) = Inr xs"
| "spread (Some (JStr s)) = Inr (map (\<lambda>c. JStr [c]) s)"
| "spread _ = Inl TypeError"

definition command_list :: "string \<Rightarrow> json option \<Rightarrow> error + json list" where
  "command_list command args =
     (case spread (if \<not> truthy args then Some (JArr []) else args) of
        Inl e \<Rightarrow> Inl e
      | Inr xs \<Rightarrow> Inr (JStr command # xs))"

definition command ::
  "string list option \<Rightarrow> string \<Rightarrow> bool \<Rightarrow> ipcInterface \<Rightarrow> string \<Rightarrow> json option
    \<Rightarrow> ipcInterface \<times> error option" where
  "command stackMatch request_id write_ok s cmd args =
     (case command_list cmd args of
        Inl e \<Rightarrow> (s, Some e)
      | Inr xs \<Rightarrow> send stackMatch request_id write_ok s xs)"

text \<open>
  \<open>data.toString().split('\n')\<close>: the pieces of a text between its line feeds, one more
  than there are line feeds (the empty text gives one empty piece).
\<close>

definition newline :: char where
  "newline = CHR 0x0A"

fun split_nl :: "string \<Rightarrow> string list" where
  "split_nl [] = [[]]"
| "split_nl (c # cs) =
     (if c = newline then [] # split_nl cs
      else (case split_nl cs of
              [] \<Rightarrow> [[c]]
            | w # ws \<Rightarrow> (c # w) # ws))"

text \<open>
  \<open>messages.forEach(callback)\<close> where the callback may throw: the messages are taken in
  order, each on the state the one before left, and the first exception ends the loop and
  leaves the state as it is at that moment.
\<close>

fun forEach :: "('s \<Rightarrow> 'a \<Rightarrow> 's \<times> error option) \<Rightarrow> 's \<Rightarrow> 'a list \<Rightarrow> 's \<times> error option" where
  "forEach f s [] = (s, None)"
| "forEach f s (x # xs) =
     (case f s x of
        (s', None) \<Rightarrow> forEach f s' xs
      | (s', Some e) \<Rightarrow> (s', Some e))"

text \<open>
  The callback of \<open>dataHandler\<close> for one message. \<open>parse\<close> is \<open>JSON.parse\<close>, \<open>None\<close>
  where it throws. Reading \<open>request_id\<close> of \<open>null\<close> throws; so does reading \<open>resolve\<close> or
  \<open>reject\<close> of a table entry that does not exist.
\<close>

definition on_message ::
  "(string \<Rightarrow> json option) \<Rightarrow> ipcInterface \<Rightarrow> string \<Rightarrow> ipcInterface \<times> error option" where
  "on_message parse s message =
     (if length message > 0 then
        (case parse message of
           None \<Rightarrow> (s, Some SyntaxError)
         | Some JNull \<Rightarrow> (s, Some TypeError)
         | Some JSONmessage \<Rightarrow>
             (if truthy (field ''request_id'' JSONmessage)
                 \<and> field ''request_id'' JSONmessage \<noteq> Some (JNum 0)
              then
                (let key = to_key (the (field ''request_id'' JSONmessage)) in
                 if field ''error'' JSONmessage = Some (JStr ''success'')
                 then
                   (case ipcRequests s key of
                      None \<Rightarrow> (s, Some TypeError)
                    | Some request \<Rightarrow>
                        (s\<lparr>completions := completions s @ [(request, Resolve (field ''data'' JSONmessage))],
                           ipcRequests := (ipcRequests s)(key := None)\<rparr>, None))
                 else
                   (case ipcRequests s key of
                      None \<Rightarrow> (s, Some TypeError)
                    | Some request \<Rightarrow>
                        (s\<lparr>completions := completions s @ [(request, Reject (field ''error'' JSONmessage))],
                           ipcRequests := (ipcRequests s)(key := None)\<rparr>, None)))
              else (s\<lparr>emitted := emitted s @ [JSONmessage]\<rparr>, None)))
      else (s, None))"

definition dataHandler ::
  "(string \<Rightarrow> json option) \<Rightarrow> ipcInterface \<Rightarrow> string \<Rightarrow> ipcInterface \<times> error option" where
  "dataHandler parse s data = forEach (on_message parse) s (split_nl data)"

section \<open>Loading a file (\<open>load\<close> of the class \<open>mpv\<close>)\<close>

text \<open>
  The part of an \<open>mpv\<close> object that \<open>load\<close> reads, and the connections it opens: the
  paths given to \<open>observeSocket.connect\<close>, in order.
\<close>

record mpv =
  running :: bool
  socket_path :: string
  connects :: "string list"

definition load_modes :: "(string \<times> string) list" where
  "load_modes =
     [(''replace'', ''Replace the currently playing title''),
      (''append'', ''Append the title to the playlist''),
      (''append-play'', ''Append the title and when it is the only title in the list start playback'')]"

text \<open>\<open>options ? [file, mode].concat(options) : [file, mode]\<close>.\<close>

definition load_arguments :: "string \<Rightarrow> string \<Rightarrow> string list option \<Rightarrow> string list" where
  "load_arguments file mode opts =
     (case opts of None \<Rightarrow> [file, mode] | Some os \<Rightarrow> [file, mode] @ os)"

text \<open>
  \<open>load\<close> up to the call of \<open>observeSocket.connect\<close>: what it throws, and the state it
  leaves. \<open>mode_arg\<close> is the mode as the caller gave it, \<open>None\<close> when absent (the default
  \<open>'replace'\<close> stands in). \<open>caller\<close> is what \<open>getCaller()\<close> returns at the top of
  \<open>load\<close>, where the frame of \<open>load\<close> itself is on the stack.
\<close>

definition load ::
  "string \<Rightarrow> mpv \<Rightarrow> string \<Rightarrow> string option \<Rightarrow> string list option \<Rightarrow> mpv \<times> error option" where
  "load caller m file mode_arg opts =
     (let mode = (case mode_arg of None \<Rightarrow> ''replace'' | Some x \<Rightarrow> x) in
      if \<not> running m then
        (m, Some (Thrown (errorMessage 8 caller (Some (load_arguments file mode opts)) None
                           (Some load_modes))))
      else if \<not> List.member [''replace'', ''append'', ''append-play''] mode then
        (m, Some (Thrown (errorMessage 1 caller (Some (load_arguments file mode opts)) None
                           (Some load_modes))))
      else (m\<lparr>connects := connects m @ [socket_path m]\<rparr>, None))"

text \<open>
  The socket \<open>observeSocket\<close> of one call of \<open>load\<close>, with the variables \<open>timeout\<close> and
  \<open>started\<close> its \<open>data\<close> listener closes over: whether the socket is destroyed and whether
  the listener is registered.
\<close>

record observer =
  observe_destroyed :: bool
  listening :: bool
  timeout :: nat
  started :: bool

definition new_observer :: observer where
  "new_observer = \<lparr>observe_destroyed = False, listening = False, timeout = 0, started = False\<rparr>"

text \<open>
  The callback of \<open>observeSocket.connect\<close>. \<open>command_result\<close> is what awaiting
  \<open>this.command('loadfile', ...)\<close> throws, if anything, and \<open>size_result\<close> what awaiting
  \<open>this.getPlaylistSize()\<close> throws or returns (both are methods of modules that are not
  among the sources).
\<close>

definition load_connected ::
  "string \<Rightarrow> error option \<Rightarrow> error + int \<Rightarrow> observer \<times> error option" where
  "load_connected mode command_result size_result =
     (case command_result of
        Some e \<Rightarrow> (new_observer, Some e)
      | None \<Rightarrow>
         (case size_result of
            Inl e \<Rightarrow> (new_observer, Some e)
          | Inr playlistSize \<Rightarrow>
              if mode = ''append'' then (new_observer\<lparr>observe_destroyed := True\<rparr>, None)
              else if mode = ''append-play'' \<and> playlistSize > 1
                then (new_observer\<lparr>observe_destroyed := True\<rparr>, None)
              else (new_observer\<lparr>listening := True\<rparr>, None)))"

text \<open>
  The callback of the \<open>data\<close> listener's \<open>forEach\<close>, for one message. The \<open>return\<close>
  after \<open>file-loaded\<close> leaves this callback only: the loop goes on to the next message.
\<close>

definition observe_message ::
  "(string \<Rightarrow> json option) \<Rightarrow> string \<Rightarrow> string \<Rightarrow> observer \<Rightarrow> string \<Rightarrow> observer \<times> error option" where
  "observe_message parse caller file ob messageStr =
     (if length messageStr > 0 then
        (case parse messageStr of
           None \<Rightarrow> (ob, Some SyntaxError)
         | Some JNull \<Rightarrow> (ob, Some TypeError)
         | Some message \<Rightarrow>
             if truthy (field ''event'' message) then
               (if field ''event'' message = Some (JStr ''start-file'')
                  then (ob\<lparr>started := True\<rparr>, None)
                else if field ''event'' message = Some (JStr ''file-loaded'') \<and> started ob
                  then (ob\<lparr>observe_destroyed := True\<rparr>, None)
                else if field ''event'' message = Some (JStr ''end-file'') \<and> started ob
                  then (ob\<lparr>observe_destroyed := True\<rparr>,
                        Some (Thrown (errorMessage 0 caller (Some [file]) None None)))
                else (ob, None))
             else (ob, None))
      else (ob, None))"

text \<open>The \<open>data\<close> listener, for one delivery.\<close>

definition observe_data ::
  "(string \<Rightarrow> json option) \<Rightarrow> string \<Rightarrow> string \<Rightarrow> observer \<Rightarrow> string \<Rightarrow> observer \<times> error option" where
  "observe_data parse caller file ob data =
     (case forEach (observe_message parse caller file) (ob\<lparr>timeout := timeout ob + 1\<rparr>)
             (split_nl data) of
        (ob', Some e) \<Rightarrow> (ob', Some e)
      | (ob', None) \<Rightarrow>
          if timeout ob' > 10
          then (ob'\<lparr>observe_destroyed := True\<rparr>,
                Some (Thrown (errorMessage 5 caller (Some [file]) None None)))
          else (ob', None))"

text \<open>
  The deliveries of a socket, in order: the listener runs for each while it is registered
  and the socket is not destroyed (a destroyed socket emits no \<open>data\<close> event), up to the
  first delivery at which it throws.
\<close>

fun observe_run ::
  "(string \<Rightarrow> json option) \<Rightarrow> string \<Rightarrow> string \<Rightarrow> observer \<Rightarrow> string list \<Rightarrow> observer \<times> error option" where
  "observe_run parse caller file ob [] = (ob, None)"
| "observe_run parse caller file ob (d # ds) =
     (if listening ob \<and> \<not> observe_destroyed ob then
        (case observe_data parse caller file ob d of
           (ob', None) \<Rightarrow> observe_run parse caller file ob' ds
         | (ob', Some e) \<Rightarrow> (ob', Some e))
      else (ob, None))"

section \<open>Sample texts\<close>

text \<open>
  A delivery that holds the given messages, each ended by a line feed, as the player
  writes them; the texts the examples below deliver, and \<open>JSON.parse\<close> on them: each
  text that is JSON with the value it parses to. The one other text the examples use,
  \<open>oops\<close>, is not JSON.
\<close>

definition chunk :: "string list \<Rightarrow> string" where
  "chunk messages = concat (map (\<lambda>m. m @ [newline]) messages)"

definition quoted :: "string \<Rightarrow> string" where
  "quoted s = CHR 0x22 # s @ [CHR 0x22]"

definition event_text :: "string \<Rightarrow> string" where
  "event_text name = ''{'' @ quoted ''event'' @ '':'' @ quoted name @ ''}''"

definition response_text :: "string \<Rightarrow> string \<Rightarrow> string" where
  "response_text request_id err =
     ''{'' @ quoted ''request_id'' @ '':'' @ quoted request_id @ '','' @ quoted ''error'' @ '':''
       @ quoted err @ '','' @ quoted ''data'' @ '':50}''"

definition sample_parse :: "string \<Rightarrow> json option" where
  "sample_parse = map_of
     [(event_text ''start-file'', JObj [(''event'', JStr ''start-file'')]),
      (event_text ''file-loaded'', JObj [(''event'', JStr ''file-loaded'')]),
      (event_text ''end-file'', JObj [(''event'', JStr ''end-file'')]),
      (event_text ''pause'', JObj [(''event'', JStr ''pause'')]),
      (response_text ''c1'' ''success'',
         JObj [(''request_id'', JStr ''c1''), (''error'', JStr ''success''), (''data'', JNum 50)]),
      (response_text ''c1'' ''property unavailable'',
         JObj [(''request_id'', JStr ''c1''), (''error'', JStr ''property unavailable''),
               (''data'', JNum 50)])]"

definition connected :: ipcInterface where
  "connected =
     \<lparr>socket_destroyed = False, ipcRequests = Map.empty, written = [], completions = [],
      emitted = []\<rparr>"

text \<open>
  The stack match of a call that came through the method \<open>getProperty\<close> of an \<open>mpv\<close>
  object.
\<close>

definition via_getProperty :: "string list option" where
  "via_getProperty = Some [''at mpv.getProperty '']"

text \<open>
  The interface after a \<open>send\<close> whose write threw: the request \<open>c1\<close> is in the table.
\<close>

definition pending_c1 :: ipcInterface where
  "pending_c1 =
     fst (send via_getProperty ''c1'' False connected [JStr ''get_property'', JStr ''volume''])"

text \<open>
  The observer of a call of \<open>load\<close> that went on to listen, before its first delivery.
\<close>

definition waiting :: observer where
  "waiting = new_observer\<lparr>listening := True\<rparr>"

text \<open>The messages of a list of deliveries that are not empty, in order of arrival.\<close>

definition messages_of :: "string list \<Rightarrow> string list" where
  "messages_of ds = concat (map (\<lambda>d. filter (\<lambda>m. m \<noteq> []) (split_nl d)) ds)"




section \<open>Splitting, the loop and the sample texts\<close>

lemma pending_c1_eq:
  "pending_c1 = connected\<lparr>ipcRequests := [''c1'' \<mapsto> \<lparr>request_args = [JStr ''volume'']\<rparr>]\<rparr>"
  by (simp add: pending_c1_def send_def connected_def)

lemma split_nl_nonempty: "split_nl xs \<noteq> []"
  by (induction xs) (auto split: list.splits)

lemma split_nl_line:
  "newline \<notin> set m \<Longrightarrow> split_nl (m @ newline # rest) = m # split_nl rest"
  by (induction m) (auto split: list.splits simp: split_nl_nonempty)

lemma split_nl_chunk:
  "list_all (\<lambda>m. newline \<notin> set m) ms \<Longrightarrow> split_nl (chunk ms) = ms @ [[]]"
  by (induction ms) (simp_all add: chunk_def split_nl_line)


lemma on_message_empty: "on_message parse s [] = (s, None)"
  by (simp add: on_message_def)

lemma sample_success: "sample_parse (response_text ''c1'' ''success'') = Some (JObj [(''request_id'', JStr ''c1''), (''error'', JStr ''success''), (''data'', JNum 50)])"
  by (simp add: sample_parse_def response_text_def event_text_def quoted_def)

lemma sample_fail: "sample_parse (response_text ''c1'' ''property unavailable'') = Some (JObj [(''request_id'', JStr ''c1''), (''error'', JStr ''property unavailable''), (''data'', JNum 50)])"
  by (simp add: sample_parse_def response_text_def event_text_def quoted_def)





section \<open>The request table\<close>

text \<open>
  C1. Dispatching a response whose \<open>request_id\<close> is the key of an entry of the table:
  when its \<open>error\<close> is the string \<open>success\<close>, \<open>resolve\<close> is called on that entry's
  request with the \<open>data\<close> of the response; otherwise \<open>reject\<close> is called on it with
  the \<open>error\<close> of the response, and the request holds the arguments of its command. In
  both cases that entry, and no other, leaves the table and nothing else in the state
  changes; a second dispatch of the same response completes nothing, since the entry is
  gone. The same holds of a delivery that carries the response alone.
\<close>

theorem dispatch_matching_response:
  assumes "message \<noteq> []" and "parse message = Some j"
    and "field ''request_id'' j = Some rid" and "truthy (Some rid)"
    and "ipcRequests s (to_key rid) = Some request"
  shows "on_message parse s message =
           (s\<lparr>completions := completions s @
                  [(request, if field ''error'' j = Some (JStr ''success'')
                             then Resolve (field ''data'' j) else Reject (field ''error'' j))],
               ipcRequests := (ipcRequests s)(to_key rid := None)\<rparr>, None)
         \<and> on_message parse (fst (on_message parse s message)) message
             = (fst (on_message parse s message), Some TypeError)
         \<and> (newline \<notin> set message \<longrightarrow>
              dataHandler parse s (chunk [message]) = on_message parse s message)"
proof -
  have nn: "j \<noteq> JNull" using assms(3) by auto
  have nz: "field ''request_id'' j \<noteq> Some (JNum 0)" using assms(3,4) by auto
  have first: "on_message parse s message =
           (s\<lparr>completions := completions s @
                  [(request, if field ''error'' j = Some (JStr ''success'')
                             then Resolve (field ''data'' j) else Reject (field ''error'' j))],
               ipcRequests := (ipcRequests s)(to_key rid := None)\<rparr>, None)"
    using assms nn nz by (cases j) (simp_all add: on_message_def)
  have second: "on_message parse (fst (on_message parse s message)) message
             = (fst (on_message parse s message), Some TypeError)"
    unfolding first using assms nn nz by (cases j) (simp_all add: on_message_def)
  have chunk: "newline \<notin> set message \<longrightarrow>
              dataHandler parse s (chunk [message]) = on_message parse s message"
  proof
    assume "newline \<notin> set message"
    then have "split_nl (chunk [message]) = [message, []]"
      by (simp add: split_nl_chunk)
    then show "dataHandler parse s (chunk [message]) = on_message parse s message"
      by (simp add: dataHandler_def first on_message_empty)
  qed
  from first second chunk show ?thesis by blast
qed

theorem dispatch_matching_response_witness:
  "on_message sample_parse pending_c1 (response_text ''c1'' ''success'')
     = (connected\<lparr>completions := [(\<lparr>request_args = [JStr ''volume'']\<rparr>, Resolve (Some (JNum 50)))]\<rparr>, None)
   \<and> on_message sample_parse pending_c1 (response_text ''c1'' ''property unavailable'')
     = (connected\<lparr>completions := [(\<lparr>request_args = [JStr ''volume'']\<rparr>,
           Reject (Some (JStr ''property unavailable'')))]\<rparr>, None)"
proof -
  have r: "ipcRequests pending_c1 (to_key (JStr ''c1'')) = Some \<lparr>request_args = [JStr ''volume'']\<rparr>"
    by (simp add: pending_c1_eq)
  have ne: "response_text ''c1'' e \<noteq> []" for e
    by (simp add: response_text_def)
  have a: "on_message sample_parse pending_c1 (response_text ''c1'' ''success'')
     = (connected\<lparr>completions := [(\<lparr>request_args = [JStr ''volume'']\<rparr>, Resolve (Some (JNum 50)))]\<rparr>, None)"
    using dispatch_matching_response [of "response_text ''c1'' ''success''" sample_parse _
        "JStr ''c1''" pending_c1, OF ne sample_success _ _ r]
    by (simp add: pending_c1_eq connected_def)
  have b: "on_message sample_parse pending_c1 (response_text ''c1'' ''property unavailable'')
     = (connected\<lparr>completions := [(\<lparr>request_args = [JStr ''volume'']\<rparr>,
           Reject (Some (JStr ''property unavailable'')))]\<rparr>, None)"
    using dispatch_matching_response [of "response_text ''c1'' ''property unavailable''"
        sample_parse _ "JStr ''c1''" pending_c1, OF ne sample_fail _ _ r]
    by (simp add: pending_c1_eq connected_def)
  from a b show ?thesis by simp
qed

text \<open>
  C8, at two concrete calls on a destroyed socket. Neither call changes the state: no
  request is registered and nothing is written. The call that came through
  \<open>mpv.getProperty\<close> throws the error of code 8 (\<open>MPV is not running\<close>); the call with no
  matching frame on its stack throws the \<open>TypeError\<close> of \<open>getCaller\<close> instead.
\<close>

theorem send_destroyed_no_caller:
  "send None ''c1'' True (closeHandler connected) [JStr ''get_property'', JStr ''volume'']
     = (closeHandler connected, Some TypeError)
   \<and> send via_getProperty ''c1'' True (closeHandler connected)
         [JStr ''get_property'', JStr ''volume'']
     = (closeHandler connected, Some (Thrown (errorMessage 8 ''getProperty()'' None None None)))
   \<and> verbose (errorMessage 8 ''getProperty()'' None None None) = Some ''MPV is not running''"
  by (simp add: send_def getCaller_def via_getProperty_def trim_def is_space_def closeHandler_def
      connected_def errorMessage_def messageDict_def)

text \<open>
  On a destroyed socket every call of \<open>send\<close> throws and leaves the state as it was,
  whatever the stack; the error is that of code 8 whenever \<open>getCaller\<close> returns.
\<close>

lemma send_destroyed_unchanged:
  assumes "socket_destroyed s"
  shows "fst (send stackMatch request_id write_ok s cmd) = s
         \<and> snd (send stackMatch request_id write_ok s cmd) \<noteq> None
         \<and> (getCaller stackMatch = Inr caller \<longrightarrow>
              snd (send stackMatch request_id write_ok s cmd)
                = Some (Thrown (errorMessage 8 caller None None None)))"
  using assms by (simp add: send_def split: sum.splits)

text \<open>
  C2, at a concrete call: on a connected interface, \<open>send\<close> of
  \<open>['get_property', 'volume']\<close> with identifier \<open>c1\<close> writes the message and returns
  with no entry for \<open>c1\<close> in the table; the response to it then finds no request, and
  \<open>dataHandler\<close> throws a \<open>TypeError\<close>.
\<close>

theorem send_forgets_request:
  "send via_getProperty ''c1'' True connected [JStr ''get_property'', JStr ''volume'']
     = (connected\<lparr>written := [([JStr ''get_property'', JStr ''volume''], ''c1'')]\<rparr>, None)
   \<and> ipcRequests (fst (send via_getProperty ''c1'' True connected
        [JStr ''get_property'', JStr ''volume''])) ''c1'' = None
   \<and> dataHandler sample_parse
        (fst (send via_getProperty ''c1'' True connected [JStr ''get_property'', JStr ''volume'']))
        (chunk [response_text ''c1'' ''success''])
     = (connected\<lparr>written := [([JStr ''get_property'', JStr ''volume''], ''c1'')]\<rparr>, Some TypeError)"
proof -
  have nl: "newline \<notin> set (response_text ''c1'' ''success'')"
    by (simp add: response_text_def quoted_def newline_def)
  have sp: "split_nl (chunk [response_text ''c1'' ''success'']) = [response_text ''c1'' ''success'', []]"
    using nl by (simp add: split_nl_chunk)
  have ne: "response_text ''c1'' ''success'' \<noteq> []"
    by (simp add: response_text_def)
  show ?thesis
    by (simp add: send_def connected_def dataHandler_def sp on_message_def sample_success ne)
qed

text \<open>
  C3 as stated fails: with the request \<open>c1\<close> pending, the close handler leaves it in the
  table and calls neither \<open>resolve\<close> nor \<open>reject\<close>.
\<close>

theorem closeHandler_fails_nothing:
  "ipcRequests (closeHandler pending_c1) ''c1'' = Some \<lparr>request_args = [JStr ''volume'']\<rparr>
   \<and> completions (closeHandler pending_c1) = []"
  by (simp add: closeHandler_def pending_c1_eq connected_def)

text \<open>
  C3, amended. A close by the peer destroys the socket and changes nothing else: every
  pending request stays in the table, and none is completed or failed.
\<close>

theorem closeHandler_keeps_requests:
  "closeHandler s = s\<lparr>socket_destroyed := True\<rparr>
   \<and> socket_destroyed (closeHandler s)
   \<and> ipcRequests (closeHandler s) = ipcRequests s
   \<and> completions (closeHandler s) = completions s"
  by (simp add: closeHandler_def)




text \<open>
  C10. \<open>command\<close> with \<open>undefined\<close> or \<open>null\<close> for its arguments sends the command
  list \<open>[c]\<close>, exactly as it does with the empty list.
\<close>

theorem command_absent_args:
  "command_list c None = Inr [JStr c]
   \<and> command_list c (Some JNull) = Inr [JStr c]
   \<and> command_list c (Some (JArr [])) = Inr [JStr c]
   \<and> command stackMatch request_id write_ok s c None
       = send stackMatch request_id write_ok s [JStr c]
   \<and> command stackMatch request_id write_ok s c (Some JNull)
       = send stackMatch request_id write_ok s [JStr c]
   \<and> command stackMatch request_id write_ok s c (Some (JArr []))
       = send stackMatch request_id write_ok s [JStr c]"
  by (simp add: command_def command_list_def)

section \<open>The load session\<close>








lemma observe_run_stopped:
  "observe_destroyed ob \<Longrightarrow> observe_run parse caller file ob ds = (ob, None)"
  by (cases ds) simp_all



















lemma messages_of_append: "messages_of (xs @ ys) = messages_of xs @ messages_of ys"
  by (simp add: messages_of_def)





















text \<open>
  C6. When the mode is \<open>append\<close>, or the mode is \<open>append-play\<close> and the playlist size
  read after the command is greater than one, the callback destroys the socket and returns
  without registering the listener, so no delivery is ever handled. With \<open>append-play\<close>
  and a playlist size of one or less it registers the listener instead.
\<close>

theorem load_append_silent:
  "(mode = ''append'' \<or> (mode = ''append-play'' \<and> playlistSize > 1) \<longrightarrow>
      load_connected mode None (Inr playlistSize)
        = (new_observer\<lparr>observe_destroyed := True\<rparr>, None)
    \<and> \<not> listening (fst (load_connected mode None (Inr playlistSize)))
    \<and> observe_run parse caller file (fst (load_connected mode None (Inr playlistSize))) ds
        = (new_observer\<lparr>observe_destroyed := True\<rparr>, None))
   \<and> (mode = ''append-play'' \<and> playlistSize \<le> 1 \<longrightarrow>
      load_connected mode None (Inr playlistSize) = (waiting, None)
    \<and> listening waiting \<and> \<not> observe_destroyed waiting)"
  by (auto simp add: load_connected_def waiting_def new_observer_def observe_run_stopped)

theorem load_append_silent_witness:
  "load_connected ''append'' None (Inr 3) = (new_observer\<lparr>observe_destroyed := True\<rparr>, None)
   \<and> load_connected ''append-play'' None (Inr 2) = (new_observer\<lparr>observe_destroyed := True\<rparr>, None)
   \<and> load_connected ''append-play'' None (Inr 1) = (waiting, None)"
  using load_append_silent [of "''append''" 3 sample_parse "''load()''" "''song.mp3''" "[]"]
    load_append_silent [of "''append-play''" 2 sample_parse "''load()''" "''song.mp3''" "[]"]
    load_append_silent [of "''append-play''" 1 sample_parse "''load()''" "''song.mp3''" "[]"]
  by simp

text \<open>
  C9. \<open>load\<close> on a player that is not running throws the error of code 8
  (\<open>MPV is not running\<close>); on a running player with a mode other than \<open>replace\<close>,
  \<open>append\<close> and \<open>append-play\<close> it throws the error of code 1 (\<open>Invalid argument\<close>).
  Both error objects carry the file, the mode and the options given, and the three valid
  modes; in both cases the state is unchanged, so no connection is opened. Only a running
  player with a valid mode opens one.
\<close>

theorem load_preconditions:
  assumes "mode = (case mode_arg of None \<Rightarrow> ''replace'' | Some x \<Rightarrow> x)"
  shows "(\<not> running m \<longrightarrow>
            load caller m file mode_arg opts
              = (m, Some (Thrown (errorMessage 8 caller (Some (load_arguments file mode opts)) None
                                    (Some load_modes)))))
       \<and> (running m \<and> mode \<noteq> ''replace'' \<and> mode \<noteq> ''append'' \<and> mode \<noteq> ''append-play'' \<longrightarrow>
            load caller m file mode_arg opts
              = (m, Some (Thrown (errorMessage 1 caller (Some (load_arguments file mode opts)) None
                                    (Some load_modes)))))
       \<and> (running m \<and> (mode = ''replace'' \<or> mode = ''append'' \<or> mode = ''append-play'') \<longrightarrow>
            load caller m file mode_arg opts = (m\<lparr>connects := connects m @ [socket_path m]\<rparr>, None))
       \<and> verbose (errorMessage 8 caller (Some (load_arguments file mode opts)) None (Some load_modes))
            = Some ''MPV is not running''
       \<and> verbose (errorMessage 1 caller (Some (load_arguments file mode opts)) None (Some load_modes))
            = Some ''Invalid argument''
       \<and> load_arguments file mode opts = [file, mode] @ (case opts of None \<Rightarrow> [] | Some os \<Rightarrow> os)
       \<and> map fst load_modes = [''replace'', ''append'', ''append-play'']"
  using assms
  by (auto simp add: load_def errorMessage_def messageDict_def load_arguments_def load_modes_def
      split: option.splits)

theorem load_preconditions_witness:
  "load ''load()'' \<lparr>running = True, socket_path = ''/tmp/node-mpv.sock'', connects = []\<rparr>
       ''song.mp3'' (Some ''shuffle'') None
     = (\<lparr>running = True, socket_path = ''/tmp/node-mpv.sock'', connects = []\<rparr>,
        Some (Thrown (errorMessage 1 ''load()'' (Some [''song.mp3'', ''shuffle'']) None
                        (Some load_modes))))
   \<and> load ''load()'' \<lparr>running = False, socket_path = ''/tmp/node-mpv.sock'', connects = []\<rparr>
       ''song.mp3'' None (Some [''start=10''])
     = (\<lparr>running = False, socket_path = ''/tmp/node-mpv.sock'', connects = []\<rparr>,
        Some (Thrown (errorMessage 8 ''load()'' (Some [''song.mp3'', ''replace'', ''start=10'']) None
                        (Some load_modes))))"
  using load_preconditions [of "''shuffle''" "Some ''shuffle''"
      "\<lparr>running = True, socket_path = ''/tmp/node-mpv.sock'', connects = []\<rparr>" "''load()''"
      "''song.mp3''" None]
    load_preconditions [of "''replace''" None
      "\<lparr>running = False, socket_path = ''/tmp/node-mpv.sock'', connects = []\<rparr>" "''load()''"
      "''song.mp3''" "Some [''start=10'']"]
  by simp

end
